theory Spec2Isabelle
  imports Main
begin

section \<open>Python strings and POSIX path functions\<close>

text \<open>
  Python's \<^verbatim>\<open>str\<close> is modelled as \<^typ>\<open>string\<close>. An optional command-line argument
  is a \<^typ>\<open>string option\<close>; Python treats both \<^verbatim>\<open>None\<close> and the empty string as false.
\<close>

definition truthy :: "string option \<Rightarrow> bool" where
  "truthy s = (case s of None \<Rightarrow> False | Some t \<Rightarrow> t \<noteq> [])"

text \<open>\<^verbatim>\<open>s.split(sep)\<close> for a separator of one character: the result is never empty, and
  an empty segment gives the empty string.\<close>

fun split_sep :: "char \<Rightarrow> string \<Rightarrow> string list" where
  "split_sep c [] = [[]]"
| "split_sep c (x # xs) =
     (if x = c then [] # split_sep c xs
      else (case split_sep c xs of
              [] \<Rightarrow> [[x]]
            | y # ys \<Rightarrow> (x # y) # ys))"

definition sep :: char where
  "sep = CHR ''/''"

definition startswith_sep :: "string \<Rightarrow> bool" where
  "startswith_sep s = (case s of [] \<Rightarrow> False | c # _ \<Rightarrow> c = sep)"

definition endswith_sep :: "string \<Rightarrow> bool" where
  "endswith_sep s = (case rev s of [] \<Rightarrow> False | c # _ \<Rightarrow> c = sep)"

text \<open>\<^verbatim>\<open>posixpath.join(a, b)\<close>: an absolute second component discards the first; otherwise
  the components are joined with exactly one separator between them.\<close>

definition os_path_join :: "string \<Rightarrow> string \<Rightarrow> string" where
  "os_path_join a b =
     (if startswith_sep b then b
      else if a = [] \<or> endswith_sep a then a @ b
      else a @ [sep] @ b)"

text \<open>\<^verbatim>\<open>posixpath.basename(p)\<close>: everything after the last separator.\<close>

definition os_path_basename :: "string \<Rightarrow> string" where
  "os_path_basename p = rev (takeWhile (\<lambda>c. c \<noteq> sep) (rev p))"

section \<open>Exceptions\<close>

text \<open>
  The exceptions the program meets, all of them subclasses of Python's \<^verbatim>\<open>Exception\<close>.
  \<^verbatim>\<open>ClientRequestException\<close> carries the message the server sent (the code reads it as
  \<^verbatim>\<open>err.args[2]\<close>); \<^verbatim>\<open>OtherException\<close> stands for any other exception a library raises.
\<close>

datatype exn =
    FileNotFoundError string
  | NotADirectoryError string
  | PermissionError string
  | YAMLError
  | KeyError string
  | TypeError
  | ClientRequestException string
  | OtherException string

section \<open>The operating system as a parameter\<close>

text \<open>
  The file-system queries of \<^verbatim>\<open>os\<close> and \<^verbatim>\<open>os.path\<close> are not code of the repository. They
  are taken as a parameter: a record of the answers the operating system gives. The file
  system does not change during one run. \<^verbatim>\<open>exists\<close>, \<^verbatim>\<open>isdir\<close> and \<^verbatim>\<open>isfile\<close> answer
  \<^verbatim>\<open>False\<close> where the system call fails; \<^verbatim>\<open>abspath\<close> (which asks for the current
  directory), \<^verbatim>\<open>listdir\<close> and \<^verbatim>\<open>getsize\<close> raise.
\<close>

record os_env =
  os_path_exists :: "string \<Rightarrow> bool"
  os_path_isdir :: "string \<Rightarrow> bool"
  os_path_isfile :: "string \<Rightarrow> bool"
  os_path_abspath :: "string \<Rightarrow> exn + string"
  os_listdir :: "string \<Rightarrow> exn + string list"
  os_path_getsize :: "string \<Rightarrow> exn + int"

section \<open>config.py: FilesConfig\<close>

record files_config =
  path :: "string option"
  files :: "string list option"
  out_folder :: "string option"

text \<open>\<^verbatim>\<open>FilesConfig.__init__(path, files, out_folder)\<close>: the new request, or the
  exception of \<^verbatim>\<open>os.path.abspath\<close>.\<close>

definition FilesConfig_init ::
  "os_env \<Rightarrow> string option \<Rightarrow> string option \<Rightarrow> string option \<Rightarrow> exn + files_config" where
  "FilesConfig_init env p fs out =
     (let fl = (case fs of
                  None \<Rightarrow> None
                | Some raw \<Rightarrow> if raw \<noteq> [] then Some (split_sep CHR '','' raw) else None)
      in if truthy out then Inr \<lparr> path = p, files = fl, out_folder = out \<rparr>
         else (case p of
                 None \<Rightarrow> Inr \<lparr> path = p, files = fl, out_folder = None \<rparr>
               | Some d \<Rightarrow>
                   if d \<noteq> [] then
                     (case os_path_abspath env d of
                        Inl e \<Rightarrow> Inl e
                      | Inr a \<Rightarrow>
                          Inr \<lparr> path = p, files = fl,
                                out_folder = Some (os_path_basename a) \<rparr>)
                   else Inr \<lparr> path = p, files = fl, out_folder = None \<rparr>))"

text \<open>\<^verbatim>\<open>not self.files\<close>: true for \<^verbatim>\<open>None\<close> and for the empty list.\<close>

definition files_falsy :: "string list option \<Rightarrow> bool" where
  "files_falsy fs = (case fs of None \<Rightarrow> True | Some xs \<Rightarrow> xs = [])"

text \<open>\<^verbatim>\<open>FilesConfig._verify_path\<close>.\<close>

definition verify_path :: "os_env \<Rightarrow> files_config \<Rightarrow> string list" where
  "verify_path env c =
     (case path c of
        None \<Rightarrow> []
      | Some p \<Rightarrow>
          if p \<noteq> [] then
            (if \<not> os_path_exists env p then [p @ '' does not exist'']
             else if \<not> os_path_isdir env p then [p @ '' is not a directory'']
             else [])
          else [])"

text \<open>The body of the loop of \<^verbatim>\<open>FilesConfig._verify_files\<close> for one entry \<open>f\<close>: the
  errors it appends.\<close>

fun verify_file :: "os_env \<Rightarrow> string option \<Rightarrow> string \<Rightarrow> string list" where
  "verify_file env None f =
     (if \<not> os_path_exists env f then [f @ '' does not exist'']
      else if \<not> os_path_isfile env f then [f @ '' is not a file'']
      else [])"
| "verify_file env (Some p) f =
     (if \<not> os_path_exists env f then
        (if p \<noteq> [] \<and> \<not> os_path_exists env (os_path_join p f)
           then [f @ '' does not exist on path '' @ p]
         else if p \<noteq> [] \<and> \<not> os_path_isfile env (os_path_join p f)
           then [f @ '' is not a file'']
         else if p = [] then [f @ '' does not exist'']
         else [])
      else if \<not> os_path_isfile env f then [f @ '' is not a file'']
      else [])"

text \<open>\<^verbatim>\<open>FilesConfig._verify_files\<close>.\<close>

definition verify_files :: "os_env \<Rightarrow> files_config \<Rightarrow> string list" where
  "verify_files env c =
     (case files c of
        None \<Rightarrow> []
      | Some fs \<Rightarrow> concat (map (verify_file env (path c)) fs))"

text \<open>
  The character class \<^verbatim>\<open>[a-zA-Z0-9._-]\<close> and \<^verbatim>\<open>re.compile("^[a-zA-Z0-9._-]+$").match(s)\<close>.
  In Python's \<^verbatim>\<open>re\<close>, without the MULTILINE flag, \<^verbatim>\<open>$\<close> matches at the end of the string
  and also just before a newline that is the last character of the string. The greedy
  \<^verbatim>\<open>+\<close> takes the longest run of class characters; giving characters back cannot help,
  because the position after a shorter run is followed by a class character.
\<close>

definition allowed_char :: "char \<Rightarrow> bool" where
  "allowed_char c =
     (let n = (of_char c :: nat) in
        (97 \<le> n \<and> n \<le> 122) \<or> (65 \<le> n \<and> n \<le> 90) \<or> (48 \<le> n \<and> n \<le> 57)
        \<or> c = CHR ''.'' \<or> c = CHR ''_'' \<or> c = CHR ''-'')"

definition newline :: char where
  "newline = CHR 0x0A"

definition allowed_path_match :: "string \<Rightarrow> bool" where
  "allowed_path_match s =
     (let body = takeWhile allowed_char s; rest = dropWhile allowed_char s in
        body \<noteq> [] \<and> (rest = [] \<or> rest = [newline]))"

text \<open>\<^verbatim>\<open>FilesConfig._verify_out_folder\<close>.\<close>

definition verify_out_folder :: "files_config \<Rightarrow> string list" where
  "verify_out_folder c =
     (case out_folder c of
        None \<Rightarrow> []
      | Some out \<Rightarrow>
          if out = [] then []
          else if \<not> allowed_path_match out
            then [out @ '' contains illegal characters: only a-zA-Z0-9._- are allowed'']
          else [])"

text \<open>
  \<^verbatim>\<open>FilesConfig._fix_paths\<close>: the request with its file list rewritten, or the exception
  of \<^verbatim>\<open>os.path.abspath\<close> or \<^verbatim>\<open>os.listdir\<close>. The new list is assigned to \<^verbatim>\<open>self.files\<close>
  as the last step, so an exception leaves the request as it was.
\<close>

definition local_path :: "os_env \<Rightarrow> files_config \<Rightarrow> exn + string" where
  "local_path env c =
     (case path c of
        None \<Rightarrow> os_path_abspath env ''.''
      | Some p \<Rightarrow> if p \<noteq> [] then os_path_abspath env p else os_path_abspath env ''.'')"

text \<open>The loop over \<^verbatim>\<open>os.listdir(local_path)\<close>.\<close>

definition listed_files :: "os_env \<Rightarrow> string \<Rightarrow> exn + string list" where
  "listed_files env lp =
     (case os_listdir env lp of
        Inl e \<Rightarrow> Inl e
      | Inr names \<Rightarrow> Inr (filter (os_path_isfile env) (map (os_path_join lp) names)))"

definition fix_paths :: "os_env \<Rightarrow> files_config \<Rightarrow> exn + files_config" where
  "fix_paths env c =
     (case local_path env c of
        Inl e \<Rightarrow> Inl e
      | Inr lp \<Rightarrow>
          (case files c of
             Some (f # fs) \<Rightarrow> Inr (c\<lparr>files := Some (map (os_path_join lp) (f # fs))\<rparr>)
           | _ \<Rightarrow>
               (case listed_files env lp of
                  Inl e \<Rightarrow> Inl e
                | Inr found \<Rightarrow> Inr (c\<lparr>files := Some found\<rparr>))))"

text \<open>
  \<^verbatim>\<open>FilesConfig.verify\<close>: the returned error list and the request as the call leaves it,
  or the exception that \<^verbatim>\<open>_fix_paths\<close> raised.
\<close>

definition verify_errors :: "os_env \<Rightarrow> files_config \<Rightarrow> string list" where
  "verify_errors env c =
     filter (\<lambda>x. x \<noteq> [])
       ((if \<not> truthy (path c) \<and> files_falsy (files c)
           then [''at least one of -i or -f must be present''] else [])
        @ verify_path env c @ verify_files env c @ verify_out_folder c)"

definition verify :: "os_env \<Rightarrow> files_config \<Rightarrow> exn + string list \<times> files_config" where
  "verify env c =
     (let ret = verify_errors env c in
        if ret = [] then
          (case fix_paths env c of
             Inl e \<Rightarrow> Inl e
           | Inr c' \<Rightarrow> Inr (ret, c'))
        else Inr (ret, c))"

section \<open>A small POSIX file system\<close>

text \<open>
  A concrete operating system to run the code on: a current directory and the absolute,
  normalised paths of the regular files, of the directories, and of the directories that
  may not be read. There are no symbolic links, and the current directory exists, so that
  \<^verbatim>\<open>abspath\<close> does not raise. \<^verbatim>\<open>posixpath.normpath\<close> and \<^verbatim>\<open>posixpath.abspath\<close> are written out after the
  Python library.
\<close>

fun norm_comps :: "bool \<Rightarrow> string list \<Rightarrow> string list \<Rightarrow> string list" where
  "norm_comps initial_slashes [] new_comps = new_comps"
| "norm_comps initial_slashes (part # comps) new_comps =
     (if part = [] \<or> part = ''.'' then norm_comps initial_slashes comps new_comps
      else if part \<noteq> ''..'' \<or> (\<not> initial_slashes \<and> new_comps = [])
               \<or> (new_comps \<noteq> [] \<and> last new_comps = ''..'')
        then norm_comps initial_slashes comps (new_comps @ [part])
      else if new_comps \<noteq> [] then norm_comps initial_slashes comps (butlast new_comps)
      else norm_comps initial_slashes comps new_comps)"

fun join_sep :: "string list \<Rightarrow> string" where
  "join_sep [] = []"
| "join_sep [x] = x"
| "join_sep (x # y # ys) = x @ [sep] @ join_sep (y # ys)"

definition os_path_normpath :: "string \<Rightarrow> string" where
  "os_path_normpath p =
     (if p = [] then ''.''
      else
        (let initial_slashes =
               (if startswith_sep p then
                  (if take 2 p = [sep, sep] \<and> take 3 p \<noteq> [sep, sep, sep] then 2 else 1)
                else (0::nat));
             comps = norm_comps (initial_slashes \<noteq> 0) (split_sep sep p) [];
             r = replicate initial_slashes sep @ join_sep comps
         in if r = [] then ''.'' else r))"

record posix_fs =
  cwd :: string
  regular_files :: "string list"
  directories :: "string list"
  unreadable :: "string list"
  size_of :: "string \<Rightarrow> int"

definition posix_abspath :: "posix_fs \<Rightarrow> string \<Rightarrow> string" where
  "posix_abspath fs p =
     os_path_normpath (if startswith_sep p then p else os_path_join (cwd fs) p)"

text \<open>A path with a trailing separator never names a regular file, and the empty path names
  nothing.\<close>

definition posix_isfile :: "posix_fs \<Rightarrow> string \<Rightarrow> bool" where
  "posix_isfile fs p =
     (p \<noteq> [] \<and> \<not> endswith_sep p \<and> posix_abspath fs p \<in> set (regular_files fs))"

definition posix_isdir :: "posix_fs \<Rightarrow> string \<Rightarrow> bool" where
  "posix_isdir fs p = (p \<noteq> [] \<and> posix_abspath fs p \<in> set (directories fs))"

definition posix_exists :: "posix_fs \<Rightarrow> string \<Rightarrow> bool" where
  "posix_exists fs p = (posix_isfile fs p \<or> posix_isdir fs p)"

definition posix_listdir :: "posix_fs \<Rightarrow> string \<Rightarrow> exn + string list" where
  "posix_listdir fs d =
     (let a = posix_abspath fs d in
        if \<not> posix_exists fs d then Inl (FileNotFoundError d)
        else if \<not> posix_isdir fs d then Inl (NotADirectoryError d)
        else if a \<in> set (unreadable fs) then Inl (PermissionError d)
        else
          Inr (map os_path_basename
                (filter (\<lambda>x. os_path_basename x \<noteq> []
                              \<and> os_path_join a (os_path_basename x) = x)
                   (regular_files fs @ directories fs))))"

definition posix_getsize :: "posix_fs \<Rightarrow> string \<Rightarrow> exn + int" where
  "posix_getsize fs p =
     (if posix_exists fs p then Inr (size_of fs (posix_abspath fs p))
      else Inl (FileNotFoundError p))"

definition posix_env :: "posix_fs \<Rightarrow> os_env" where
  "posix_env fs =
     \<lparr> os_path_exists = posix_exists fs,
       os_path_isdir = posix_isdir fs,
       os_path_isfile = posix_isfile fs,
       os_path_abspath = (\<lambda>p. Inr (posix_abspath fs p)),
       os_listdir = posix_listdir fs,
       os_path_getsize = posix_getsize fs \<rparr>"

text \<open>The working directory \<^verbatim>\<open>/w\<close> holds the regular file \<^verbatim>\<open>a.txt\<close> and the directory
  \<^verbatim>\<open>sub\<close>, which holds the regular files \<^verbatim>\<open>b.txt\<close> and \<^verbatim>\<open>c.txt\<close>, and the directory
  \<^verbatim>\<open>locked\<close>, which may not be read; every file is 10 bytes long.\<close>

definition demo_fs :: posix_fs where
  "demo_fs =
     \<lparr> cwd = ''/w'',
       regular_files = [''/w/a.txt'', ''/w/sub/b.txt'', ''/w/sub/c.txt''],
       directories = [''/'', ''/w'', ''/w/sub'', ''/w/locked''],
       unreadable = [''/w/locked''],
       size_of = (\<lambda>p. 10) \<rparr>"

definition demo_env :: os_env where
  "demo_env = posix_env demo_fs"

section \<open>config.py: SharepointConfig and RuntimeConfig\<close>

text \<open>
  What \<^verbatim>\<open>yaml.safe_load\<close> returns: scalars, lists and dictionaries. A dictionary is an
  association list, read with \<^const>\<open>map_of\<close>. The file \<^verbatim>\<open>config.yaml\<close> is missing,
  or not YAML, or holds a document.
\<close>

datatype yaml =
    YNull
  | YBool bool
  | YInt int
  | YStr string
  | YList "yaml list"
  | YMap "(string \<times> yaml) list"

datatype config_file = Missing | Malformed | Document yaml

text \<open>\<^verbatim>\<open>open("config.yaml")\<close> followed by \<^verbatim>\<open>yaml.safe_load(f)\<close>.\<close>

definition load_config :: "config_file \<Rightarrow> exn + yaml" where
  "load_config cf =
     (case cf of
        Missing \<Rightarrow> Inl (FileNotFoundError ''config.yaml'')
      | Malformed \<Rightarrow> Inl YAMLError
      | Document d \<Rightarrow> Inr d)"

text \<open>\<^verbatim>\<open>v[k]\<close> for a string key: a dictionary without the key raises \<^verbatim>\<open>KeyError\<close>, a
  value that is no dictionary raises \<^verbatim>\<open>TypeError\<close>.\<close>

definition subscript :: "yaml \<Rightarrow> string \<Rightarrow> exn + yaml" where
  "subscript v k =
     (case v of
        YMap m \<Rightarrow> (case map_of m k of None \<Rightarrow> Inl (KeyError k) | Some x \<Rightarrow> Inr x)
      | _ \<Rightarrow> Inl TypeError)"

text \<open>\<^verbatim>\<open>conf[ns][k]\<close>.\<close>

definition subscript2 :: "yaml \<Rightarrow> string \<Rightarrow> string \<Rightarrow> exn + yaml" where
  "subscript2 conf ns k =
     (case subscript conf ns of Inl e \<Rightarrow> Inl e | Inr v \<Rightarrow> subscript v k)"

record sharepoint_config =
  tenant :: yaml
  client :: yaml
  site :: yaml
  secret :: yaml
  subsite :: "string option"

text \<open>\<^verbatim>\<open>SharepointConfig.__init__(subsite)\<close>: the four fields are read in the order of
  the source, and the first failure is the exception raised.\<close>

definition SharepointConfig_init ::
  "config_file \<Rightarrow> string option \<Rightarrow> exn + sharepoint_config" where
  "SharepointConfig_init cf sub =
     (case load_config cf of
        Inl e \<Rightarrow> Inl e
      | Inr conf \<Rightarrow>
     (case subscript2 conf ''sp'' ''tenant'' of
        Inl e \<Rightarrow> Inl e
      | Inr t \<Rightarrow>
     (case subscript2 conf ''sp'' ''client'' of
        Inl e \<Rightarrow> Inl e
      | Inr c \<Rightarrow>
     (case subscript2 conf ''sp'' ''site'' of
        Inl e \<Rightarrow> Inl e
      | Inr s \<Rightarrow>
     (case subscript2 conf ''sp'' ''secret'' of
        Inl e \<Rightarrow> Inl e
      | Inr k \<Rightarrow>
          Inr \<lparr> tenant = t, client = c, site = s, secret = k, subsite = sub \<rparr>)))))"

record runtime_config =
  debug :: bool
  chunk_size :: yaml

text \<open>\<^verbatim>\<open>RuntimeConfig.__init__(debug)\<close>.\<close>

definition RuntimeConfig_init :: "bool \<Rightarrow> config_file \<Rightarrow> exn + runtime_config" where
  "RuntimeConfig_init d cf =
     (case load_config cf of
        Inl e \<Rightarrow> Inl e
      | Inr conf \<Rightarrow>
     (case subscript2 conf ''runtime'' ''chunk_size'' of
        Inl e \<Rightarrow> Inl e
      | Inr n \<Rightarrow> Inr \<lparr> debug = d, chunk_size = n \<rparr>))"

text \<open>A configuration document as the specification describes it, with the credentials
  under the key \<^verbatim>\<open>sharepoint\<close>, and one as the code reads it, with the key \<^verbatim>\<open>sp\<close>.\<close>

definition credentials :: yaml where
  "credentials =
     YMap [(''tenant'', YStr ''t''), (''client'', YStr ''c''),
           (''site'', YStr ''https://h/sites/s''), (''secret'', YStr ''x'')]"

definition spec_document :: config_file where
  "spec_document =
     Document (YMap [(''sharepoint'', credentials),
                     (''runtime'', YMap [(''chunk_size'', YInt 4)])])"

definition demo_document :: config_file where
  "demo_document =
     Document (YMap [(''sp'', credentials),
                     (''runtime'', YMap [(''chunk_size'', YInt 4)])])"

section \<open>sputil.py: the Sharepoint client\<close>

text \<open>
  What a run does to the outside world is a list of events: the lines the logger writes and
  the calls that reach the remote site. The objects the debug lines print are kept as they
  are instead of their \<^verbatim>\<open>repr\<close> text.
\<close>

datatype debug_msg =
    ReprSharepointConfig sharepoint_config
  | ReprRuntimeConfig runtime_config
  | ReprFilesConfig files_config
  | ReprSharepoint
  | DebugUrl yaml

datatype event =
    LogDebug debug_msg
  | LogInfo string
  | LogError string
  | LogSuccess string
  | LogException exn
  | AcquireToken yaml
  | GetWeb yaml
  | AddFolder yaml "string option"
  | UploadSession yaml string

definition is_network :: "event \<Rightarrow> bool" where
  "is_network ev =
     (case ev of
        AcquireToken _ \<Rightarrow> True
      | GetWeb _ \<Rightarrow> True
      | AddFolder _ _ \<Rightarrow> True
      | UploadSession _ _ \<Rightarrow> True
      | _ \<Rightarrow> False)"

definition is_failure_log :: "event \<Rightarrow> bool" where
  "is_failure_log ev =
     (case ev of LogError _ \<Rightarrow> True | LogException _ \<Rightarrow> True | _ \<Rightarrow> False)"

text \<open>
  The remote client library is a parameter: for every request, whether it raises and what
  it returns. \<^verbatim>\<open>create_upload_session\<close> answers with the offsets the library passes to
  the progress callback, one per chunk, and with the outcome of the upload.
\<close>

record remote =
  acquire_token_for_app :: "yaml \<Rightarrow> yaml \<Rightarrow> yaml \<Rightarrow> exn option"
  get_web :: "yaml \<Rightarrow> exn + string \<times> string"
  add_folder_query :: "yaml \<Rightarrow> string option \<Rightarrow> exn + string"
  create_upload_session :: "yaml \<Rightarrow> string option \<Rightarrow> string \<Rightarrow> yaml \<Rightarrow> int list \<times> (exn + string)"

text \<open>A method returns the events it caused and either the exception it raised or its
  value. \<open>then_do\<close> runs a second step after a first one that did not raise.\<close>

type_synonym 'a run = "event list \<times> (exn + 'a)"

definition then_do :: "'a run \<Rightarrow> ('a \<Rightarrow> 'b run) \<Rightarrow> 'b run" where
  "then_do m k =
     (case m of
        (ev, Inl e) \<Rightarrow> (ev, Inl e)
      | (ev, Inr x) \<Rightarrow> (case k x of (ev', r) \<Rightarrow> (ev @ ev', r)))"

text \<open>\<^verbatim>\<open>site + "/" + subsite\<close>: only a string can be extended by a string.\<close>

definition site_url :: "sharepoint_config \<Rightarrow> exn + yaml" where
  "site_url spc =
     (case subsite spc of
        None \<Rightarrow> Inr (site spc)
      | Some sub \<Rightarrow>
          if sub = [] then Inr (site spc)
          else (case site spc of
                  YStr s \<Rightarrow> Inr (YStr (s @ ''/'' @ sub))
                | _ \<Rightarrow> Inl TypeError))"

text \<open>\<^verbatim>\<open>Sharepoint.get_token\<close>: its value is the URL it stores in \<^verbatim>\<open>self._url\<close>.\<close>

definition get_token :: "remote \<Rightarrow> sharepoint_config \<Rightarrow> runtime_config \<Rightarrow> yaml run" where
  "get_token rm spc rt =
     (case site_url spc of
        Inl e \<Rightarrow> ([], Inl e)
      | Inr url \<Rightarrow>
          ((if debug rt then [LogDebug (DebugUrl url)] else []) @ [AcquireToken url],
           (case acquire_token_for_app rm url (client spc) (secret spc) of
              Some e \<Rightarrow> Inl e
            | None \<Rightarrow> Inr url)))"

text \<open>\<^verbatim>\<open>Sharepoint.verify_url\<close>.\<close>

definition verify_url :: "remote \<Rightarrow> yaml \<Rightarrow> bool run" where
  "verify_url rm url =
     (case get_web rm url of
        Inl (ClientRequestException msg) \<Rightarrow> ([GetWeb url, LogError msg], Inr False)
      | Inl e \<Rightarrow> ([GetWeb url], Inl e)
      | Inr (title, web_url) \<Rightarrow>
          ([GetWeb url, LogSuccess (''Site '' @ title @ '': '' @ web_url)], Inr True))"

text \<open>\<^verbatim>\<open>Sharepoint.add_folder\<close>.\<close>

definition add_folder :: "remote \<Rightarrow> yaml \<Rightarrow> files_config \<Rightarrow> bool run" where
  "add_folder rm url fc =
     (case add_folder_query rm url (out_folder fc) of
        Inl (ClientRequestException msg) \<Rightarrow>
          ([AddFolder url (out_folder fc), LogError msg], Inr False)
      | Inl e \<Rightarrow> ([AddFolder url (out_folder fc)], Inl e)
      | Inr rel \<Rightarrow>
          ([AddFolder url (out_folder fc), LogSuccess (''Added folder: '' @ rel)], Inr True))"

text \<open>The progress bar of \<^verbatim>\<open>tqdm\<close>: \<^verbatim>\<open>update(n)\<close> adds \<open>n\<close> to the counter and does not
  stop at the total. A value that is not a number raises \<^verbatim>\<open>TypeError\<close>.\<close>

record pbar =
  pbar_total :: int
  pbar_n :: int

definition pbar_update :: "pbar \<Rightarrow> yaml \<Rightarrow> exn + pbar" where
  "pbar_update b v =
     (case v of
        YInt k \<Rightarrow> Inr (b\<lparr>pbar_n := pbar_n b + k\<rparr>)
      | YBool t \<Rightarrow> Inr (b\<lparr>pbar_n := pbar_n b + (if t then 1 else 0)\<rparr>)
      | _ \<Rightarrow> Inl TypeError)"

text \<open>The callback \<^verbatim>\<open>display_upload_progress(offset)\<close> of \<^verbatim>\<open>upload_files\<close>.\<close>

definition display_upload_progress :: "runtime_config \<Rightarrow> pbar \<Rightarrow> int \<Rightarrow> exn + pbar" where
  "display_upload_progress rt b offset = pbar_update b (chunk_size rt)"

text \<open>The library calls the callback once for each offset; an exception of the callback
  ends the upload.\<close>

fun run_callbacks :: "runtime_config \<Rightarrow> pbar \<Rightarrow> int list \<Rightarrow> exn + pbar" where
  "run_callbacks rt b [] = Inr b"
| "run_callbacks rt b (offset # offsets) =
     (case display_upload_progress rt b offset of
        Inl e \<Rightarrow> Inl e
      | Inr b' \<Rightarrow> run_callbacks rt b' offsets)"

text \<open>The loop of \<^verbatim>\<open>Sharepoint.upload_files\<close> over the file list.\<close>

fun upload_loop ::
  "os_env \<Rightarrow> remote \<Rightarrow> runtime_config \<Rightarrow> yaml \<Rightarrow> string option \<Rightarrow> string list \<Rightarrow> bool run" where
  "upload_loop env rm rt url out [] = ([], Inr True)"
| "upload_loop env rm rt url out (f # fs) =
     (case os_path_getsize env f of
        Inl e \<Rightarrow> ([LogInfo (''File upload: '' @ os_path_basename f)], Inl e)
      | Inr file_size \<Rightarrow>
          (case create_upload_session rm url out f (chunk_size rt) of
             (offsets, res) \<Rightarrow>
               (case run_callbacks rt \<lparr> pbar_total = file_size, pbar_n = 0 \<rparr> offsets of
                  Inl e \<Rightarrow>
                    ([LogInfo (''File upload: '' @ os_path_basename f), UploadSession url f],
                     Inl e)
                | Inr b \<Rightarrow>
                    (case res of
                       Inl (ClientRequestException msg) \<Rightarrow>
                         ([LogInfo (''File upload: '' @ os_path_basename f),
                           UploadSession url f, LogError msg], Inr False)
                     | Inl e \<Rightarrow>
                         ([LogInfo (''File upload: '' @ os_path_basename f),
                           UploadSession url f], Inl e)
                     | Inr rel \<Rightarrow>
                         (case upload_loop env rm rt url out fs of
                            (evs, r) \<Rightarrow>
                              ([LogInfo (''File upload: '' @ os_path_basename f),
                                UploadSession url f,
                                LogSuccess (''File '' @ f @ '' uploaded to: '' @ rel)] @ evs,
                               r))))))"

text \<open>\<^verbatim>\<open>Sharepoint.upload_files\<close>: iterating over \<^verbatim>\<open>None\<close> raises \<^verbatim>\<open>TypeError\<close>.\<close>

definition upload_files ::
  "os_env \<Rightarrow> remote \<Rightarrow> runtime_config \<Rightarrow> yaml \<Rightarrow> files_config \<Rightarrow> bool run" where
  "upload_files env rm rt url fc =
     (case files fc of
        None \<Rightarrow> ([], Inl TypeError)
      | Some fs \<Rightarrow> upload_loop env rm rt url (out_folder fc) fs)"

text \<open>What happens to one file \<open>g\<close> in the loop: it is uploaded, or the remote request is
  refused with a \<^verbatim>\<open>ClientRequestException\<close> (after \<^verbatim>\<open>getsize\<close> and the callbacks went
  through).\<close>

definition upload_succeeds ::
  "os_env \<Rightarrow> remote \<Rightarrow> runtime_config \<Rightarrow> yaml \<Rightarrow> string option \<Rightarrow> string \<Rightarrow> bool" where
  "upload_succeeds env rm rt url out g =
     (case os_path_getsize env g of
        Inl e \<Rightarrow> False
      | Inr file_size \<Rightarrow>
          (case create_upload_session rm url out g (chunk_size rt) of
             (offsets, res) \<Rightarrow>
               (case run_callbacks rt \<lparr> pbar_total = file_size, pbar_n = 0 \<rparr> offsets of
                  Inl e \<Rightarrow> False
                | Inr b \<Rightarrow> (case res of Inl e \<Rightarrow> False | Inr rel \<Rightarrow> True))))"

definition upload_refused ::
  "os_env \<Rightarrow> remote \<Rightarrow> runtime_config \<Rightarrow> yaml \<Rightarrow> string option \<Rightarrow> string \<Rightarrow> string \<Rightarrow> bool" where
  "upload_refused env rm rt url out g msg =
     (case os_path_getsize env g of
        Inl e \<Rightarrow> False
      | Inr file_size \<Rightarrow>
          (case create_upload_session rm url out g (chunk_size rt) of
             (offsets, res) \<Rightarrow>
               (case run_callbacks rt \<lparr> pbar_total = file_size, pbar_n = 0 \<rparr> offsets of
                  Inl e \<Rightarrow> False
                | Inr b \<Rightarrow> res = Inl (ClientRequestException msg))))"

text \<open>The files for which an upload session was opened, in the order of the calls.\<close>

fun attempted :: "event list \<Rightarrow> string list" where
  "attempted [] = []"
| "attempted (UploadSession url f # evs) = f # attempted evs"
| "attempted (ev # evs) = attempted evs"

section \<open>spup.py: Uploader.main\<close>

record params =
  p_debug :: bool
  p_subsite :: "string option"
  p_directory :: "string option"
  p_files :: "string option"
  p_out :: "string option"

text \<open>
  The body of the \<^verbatim>\<open>try\<close> block of \<^verbatim>\<open>Uploader.main\<close>. It has three ways to end
  without an exception: the \<^verbatim>\<open>return\<close> after \<^verbatim>\<open>verify_url\<close>, the \<^verbatim>\<open>return\<close> after
  \<^verbatim>\<open>add_folder\<close>, and its last statement, the call of \<^verbatim>\<open>upload_files\<close> (whose value
  \<^verbatim>\<open>main\<close> drops).
\<close>

datatype finish = SiteNotVerified | FolderNotAdded | UploadsReturned bool

definition try_body ::
  "os_env \<Rightarrow> remote \<Rightarrow> bool \<Rightarrow> sharepoint_config \<Rightarrow> runtime_config \<Rightarrow> files_config \<Rightarrow> finish run" where
  "try_body env rm dbg spc rt fc =
     then_do (get_token rm spc rt) (\<lambda>url.
     then_do ((if dbg then [LogDebug ReprSharepoint] else []), Inr ()) (\<lambda>_.
     then_do (verify_url rm url) (\<lambda>ok.
       if \<not> ok then ([], Inr SiteNotVerified)
       else
         then_do (if truthy (out_folder fc) then add_folder rm url fc else ([], Inr True))
           (\<lambda>added.
              if \<not> added then ([], Inr FolderNotAdded)
              else then_do (upload_files env rm rt url fc)
                     (\<lambda>r. ([], Inr (UploadsReturned r)))))))"

text \<open>
  \<^verbatim>\<open>Uploader.main\<close>: the events of the run, and the exception that leaves \<^verbatim>\<open>main\<close>
  unhandled, if any. The two configurations, the request and its validation come before
  the \<^verbatim>\<open>try\<close> block, so their exceptions are not caught; the methods of the logger are
  taken not to raise.
\<close>

definition main :: "os_env \<Rightarrow> config_file \<Rightarrow> remote \<Rightarrow> params \<Rightarrow> event list \<times> exn option" where
  "main env cf rm ps =
     (case SharepointConfig_init cf (p_subsite ps) of
        Inl e \<Rightarrow> ([], Some e)
      | Inr spconf \<Rightarrow>
     (case RuntimeConfig_init (p_debug ps) cf of
        Inl e \<Rightarrow> ([], Some e)
      | Inr runtime \<Rightarrow>
     (case FilesConfig_init env (p_directory ps) (p_files ps) (p_out ps) of
        Inl e \<Rightarrow> ([], Some e)
      | Inr fconf0 \<Rightarrow>
     (case verify env fconf0 of
        Inl e \<Rightarrow> ([], Some e)
      | Inr (vs, fconf) \<Rightarrow>
          (let dbg1 = (if p_debug ps
                       then [LogDebug (ReprSharepointConfig spconf),
                             LogDebug (ReprRuntimeConfig runtime),
                             LogDebug (ReprFilesConfig fconf)]
                       else [])
           in if vs \<noteq> [] then (dbg1 @ map LogError vs, None)
              else
                (let dbg2 = (if p_debug ps then [LogDebug (ReprFilesConfig fconf)] else [])
                 in case try_body env rm (p_debug ps) spconf runtime fconf of
                      (evs, Inl e) \<Rightarrow> (dbg1 @ dbg2 @ evs @ [LogException e], None)
                    | (evs, Inr _) \<Rightarrow> (dbg1 @ dbg2 @ evs, None)))))))"

text \<open>A remote site where every request succeeds and every file goes up in three chunks,
  and one where the upload of \<^verbatim>\<open>/w/sub/b.txt\<close> is refused. The runtime settings have a
  chunk size of 4 bytes.\<close>

definition demo_runtime :: runtime_config where
  "demo_runtime = \<lparr> debug = False, chunk_size = YInt 4 \<rparr>"

definition demo_remote :: remote where
  "demo_remote =
     \<lparr> acquire_token_for_app = (\<lambda>url c s. None),
       get_web = (\<lambda>url. Inr (''Site'', ''https://h/sites/s'')),
       add_folder_query = (\<lambda>url out. Inr ''/sites/s/Shared Documents/out''),
       create_upload_session = (\<lambda>url out f k. ([4, 8, 10], Inr (''/sites/s/'' @ f))) \<rparr>"

definition refusing_remote :: remote where
  "refusing_remote =
     demo_remote \<lparr> create_upload_session :=
       (\<lambda>url out f k.
          if f = ''/w/sub/b.txt'' then ([], Inl (ClientRequestException ''denied''))
          else ([4, 8, 10], Inr (''/sites/s/'' @ f))) \<rparr>"



definition bad_params :: params where
  "bad_params =
     \<lparr> p_debug = False, p_subsite = None, p_directory = Some ''nope'', p_files = Some ''zz'',
       p_out = Some ''a b'' \<rparr>"


text \<open>The credentials that \<^const>\<open>demo_document\<close> gives when no subsite is asked for.\<close>

definition demo_spconf :: sharepoint_config where
  "demo_spconf =
     \<lparr> tenant = YStr ''t'', client = YStr ''c'', site = YStr ''https://h/sites/s'',
       secret = YStr ''x'', subsite = None \<rparr>"

section \<open>Properties of validation\<close>

lemma split_sep_not_Nil: "split_sep c s \<noteq> []"
  by (induction s) (auto split: list.splits)

lemma split_sep_append:
  "split_sep c (h @ c # t) = split_sep c h @ split_sep c t"
proof (induction h)
  case Nil
  show ?case by simp
next
  case (Cons x h)
  obtain y ys where h: "split_sep c h = y # ys"
    using split_sep_not_Nil [of c h] by (cases "split_sep c h") auto
  show ?case using Cons h by simp
qed

lemma empty_segment_split:
  assumes "raw = c # t \<or> raw = h @ [c] \<or> raw = h @ [c, c] @ t"
  shows "[] \<in> set (split_sep c raw)"
proof -
  have a: "[] \<in> set (split_sep c (c # t))" by simp
  have b: "[] \<in> set (split_sep c (h @ [c]))" by (simp add: split_sep_append)
  have "split_sep c (h @ [c, c] @ t) = split_sep c h @ split_sep c (c # t)"
    using split_sep_append [of c h "c # t"] by simp
  then have d: "[] \<in> set (split_sep c (h @ [c, c] @ t))" by simp
  from assms a b d show ?thesis by auto
qed

text \<open>
  Claim C2. When \<^verbatim>\<open>verify()\<close> returns a non-empty error list, the request is left exactly
  as it was: no field is changed. The paths are normalised (\<^verbatim>\<open>_fix_paths\<close>) only when the
  error list is empty; the list returned is the list of the validation errors, and with an
  error present the call does not raise. An exception of \<^verbatim>\<open>verify()\<close> is the exception of
  \<^verbatim>\<open>_fix_paths\<close>, which leaves the request as it was.
\<close>

theorem verify_errors_leave_request_unchanged:
  "(\<forall>errs c'. verify env c = Inr (errs, c') \<and> errs \<noteq> [] \<longrightarrow> c' = c)
   \<and> (\<forall>c'. verify env c = Inr ([], c') \<longrightarrow> fix_paths env c = Inr c')
   \<and> (\<forall>errs c'. verify env c = Inr (errs, c') \<longrightarrow> errs = verify_errors env c)
   \<and> (verify_errors env c \<noteq> [] \<longrightarrow> verify env c = Inr (verify_errors env c, c))
   \<and> (\<forall>e. verify env c = Inl e \<longrightarrow> verify_errors env c = [] \<and> fix_paths env c = Inl e)"
  by (auto simp: verify_def Let_def split: sum.splits if_splits)

theorem verify_errors_leave_request_unchanged_witness:
  "map_sum id fst (verify demo_env \<lparr> path = None, files = None, out_folder = None \<rparr>)
     = Inr [''at least one of -i or -f must be present'']
   \<and> map_sum id snd (verify demo_env \<lparr> path = None, files = None, out_folder = None \<rparr>)
     = Inr \<lparr> path = None, files = None, out_folder = None \<rparr>"
proof -
  let ?c = "\<lparr> path = None, files = None, out_folder = None \<rparr>"
  have h: "map_sum id fst (verify demo_env ?c)
             = Inr [''at least one of -i or -f must be present'']"
    by code_simp
  then obtain c' where
    v: "verify demo_env ?c = Inr ([''at least one of -i or -f must be present''], c')"
    by (cases "verify demo_env ?c") auto
  have "c' = ?c"
    using v verify_errors_leave_request_unchanged [of demo_env ?c] by blast
  with v have "map_sum id snd (verify demo_env ?c) = Inr ?c" by simp
  with h show ?thesis by (rule conjI)
qed

text \<open>
  Claim C1. After a successful \<^verbatim>\<open>verify()\<close> every entry of the resolved file list should
  name an existing regular file. The code does not keep this: with the directory \<^verbatim>\<open>sub\<close>
  and the file list \<^verbatim>\<open>a.txt\<close>, where \<^verbatim>\<open>a.txt\<close> lies in the current directory and not in
  \<^verbatim>\<open>sub\<close>, the entry passes \<^verbatim>\<open>_verify_files\<close> because it exists as it is, and
  \<^verbatim>\<open>_fix_paths\<close> rewrites it to \<^verbatim>\<open>/w/sub/a.txt\<close>, which does not exist.
\<close>

theorem verify_resolves_to_missing_file:
  "FilesConfig_init demo_env (Some ''sub'') (Some ''a.txt'') None
     = Inr \<lparr> path = Some ''sub'', files = Some [''a.txt''], out_folder = Some ''sub'' \<rparr>
   \<and> verify demo_env
         \<lparr> path = Some ''sub'', files = Some [''a.txt''], out_folder = Some ''sub'' \<rparr>
       = Inr ([], \<lparr> path = Some ''sub'', files = Some [''/w/sub/a.txt''],
                    out_folder = Some ''sub'' \<rparr>)
   \<and> \<not> os_path_exists demo_env ''/w/sub/a.txt''
   \<and> \<not> os_path_isfile demo_env ''/w/sub/a.txt''"
  by code_simp

text \<open>
  Claim C4. A second \<^verbatim>\<open>verify()\<close> on a request that has passed the first should return
  the empty list again. On the request of claim C1 the first call returns no error and the
  second call reports the rewritten entry as missing.
\<close>

theorem verify_twice_reports_error:
  "FilesConfig_init demo_env (Some ''sub'') (Some ''a.txt'') None
     = Inr \<lparr> path = Some ''sub'', files = Some [''a.txt''], out_folder = Some ''sub'' \<rparr>
   \<and> verify demo_env
         \<lparr> path = Some ''sub'', files = Some [''a.txt''], out_folder = Some ''sub'' \<rparr>
       = Inr ([], \<lparr> path = Some ''sub'', files = Some [''/w/sub/a.txt''],
                    out_folder = Some ''sub'' \<rparr>)
   \<and> verify demo_env
         \<lparr> path = Some ''sub'', files = Some [''/w/sub/a.txt''], out_folder = Some ''sub'' \<rparr>
       = Inr ([''/w/sub/a.txt does not exist on path sub''],
              \<lparr> path = Some ''sub'', files = Some [''/w/sub/a.txt''],
                out_folder = Some ''sub'' \<rparr>)"
  by code_simp

text \<open>The names the pattern accepts: the non-empty strings of class characters, and
  these strings followed by one newline.\<close>

lemma not_allowed_newline: "\<not> allowed_char newline"
  by (simp add: allowed_char_def newline_def)

lemma allowed_path_match_iff:
  "allowed_path_match s \<longleftrightarrow>
     (\<exists>b. b \<noteq> [] \<and> list_all allowed_char b \<and> (s = b \<or> s = b @ [newline]))"
proof
  assume m: "allowed_path_match s"
  let ?b = "takeWhile allowed_char s"
  from m have ne: "?b \<noteq> []"
    and r: "dropWhile allowed_char s = [] \<or> dropWhile allowed_char s = [newline]"
    by (simp_all add: allowed_path_match_def Let_def)
  have all: "list_all allowed_char ?b"
    by (simp add: list_all_iff) (meson set_takeWhileD)
  have "s = ?b @ dropWhile allowed_char s" by simp
  with r have "s = ?b \<or> s = ?b @ [newline]" by (metis append_Nil2)
  with ne all show "\<exists>b. b \<noteq> [] \<and> list_all allowed_char b \<and> (s = b \<or> s = b @ [newline])"
    by blast
next
  assume "\<exists>b. b \<noteq> [] \<and> list_all allowed_char b \<and> (s = b \<or> s = b @ [newline])"
  then obtain b where b: "b \<noteq> []" "list_all allowed_char b" "s = b \<or> s = b @ [newline]"
    by blast
  from b(2) have t: "takeWhile allowed_char b = b" "dropWhile allowed_char b = []"
    by (simp_all add: list_all_iff)
  from b(2) have t2: "takeWhile allowed_char (b @ [newline]) = b"
      "dropWhile allowed_char (b @ [newline]) = [newline]"
    using not_allowed_newline by (simp_all add: list_all_iff takeWhile_append2 dropWhile_append2)
  have m1: "allowed_path_match b"
    unfolding allowed_path_match_def Let_def t using b(1) by simp
  have m2: "allowed_path_match (b @ [newline])"
    unfolding allowed_path_match_def Let_def t2 using b(1) by simp
  from b(3) m1 m2 show "allowed_path_match s" by blast
qed

text \<open>
  Claim C6. An output folder name with a character outside \<^verbatim>\<open>[a-zA-Z0-9._-]\<close> should be
  rejected. The name \<^verbatim>\<open>abc\<close> followed by a newline holds such a character and is accepted:
  \<^verbatim>\<open>$\<close> matches before the final newline.
\<close>

theorem verify_out_folder_accepts_trailing_newline:
  "\<not> allowed_char newline
   \<and> verify_out_folder
         \<lparr> path = None, files = Some [''a.txt''], out_folder = Some (''abc'' @ [newline]) \<rparr>
       = []
   \<and> FilesConfig_init demo_env None (Some ''a.txt'') (Some (''abc'' @ [newline]))
       = Inr \<lparr> path = None, files = Some [''a.txt''],
               out_folder = Some (''abc'' @ [newline]) \<rparr>
   \<and> verify demo_env
         \<lparr> path = None, files = Some [''a.txt''], out_folder = Some (''abc'' @ [newline]) \<rparr>
       = Inr ([], \<lparr> path = None, files = Some [''/w/a.txt''],
                    out_folder = Some (''abc'' @ [newline]) \<rparr>)"
  by code_simp

lemma join_empty_endswith: "p \<noteq> [] \<Longrightarrow> endswith_sep (os_path_join p [])"
  by (auto simp: os_path_join_def endswith_sep_def startswith_sep_def split: list.splits)

lemma verify_file_empty:
  assumes "\<not> os_path_exists env []"
      and "\<And>q. endswith_sep q \<Longrightarrow> \<not> os_path_isfile env q"
  shows "verify_file env p [] =
           (case p of
              None \<Rightarrow> ['' does not exist'']
            | Some d \<Rightarrow>
                if d = [] then ['' does not exist'']
                else if \<not> os_path_exists env (os_path_join d [])
                  then ['' does not exist on path '' @ d]
                else ['' is not a file''])"
  using assms join_empty_endswith by (cases p) auto

lemma verify_errors_contains:
  assumes "files c = Some fs" and "f \<in> set fs"
      and "e \<in> set (verify_file env (path c) f)" and "e \<noteq> []"
  shows "e \<in> set (verify_errors env c)"
  using assms by (auto simp: verify_errors_def verify_files_def)

text \<open>What \<^verbatim>\<open>FilesConfig.__init__\<close> does: it raises only when \<^verbatim>\<open>abspath\<close> raises for
  the directory whose name it needs, and otherwise keeps the directory and the split file
  list.\<close>

lemma FilesConfig_init_cases:
  "(case FilesConfig_init env p fs out of
      Inl e \<Rightarrow> \<not> truthy out \<and> (\<exists>d. p = Some d \<and> d \<noteq> [] \<and> os_path_abspath env d = Inl e)
    | Inr c \<Rightarrow>
        path c = p
        \<and> files c = (case fs of
                       None \<Rightarrow> None
                     | Some raw \<Rightarrow> if raw \<noteq> [] then Some (split_sep CHR '','' raw) else None))"
  by (auto simp: FilesConfig_init_def Let_def split: sum.splits option.splits)

text \<open>
  Claim C10, as stated, fails: for a raw file list with an empty segment the error for the
  empty entry need not be of the "does not exist" kind. With the directory \<^verbatim>\<open>sub\<close> and
  the file list \<^verbatim>\<open>b.txt,\<close> the only error is \<^verbatim>\<open>" is not a file"\<close>: the empty entry is
  joined to the directory, and \<^verbatim>\<open>sub/\<close> exists.
\<close>

theorem empty_entry_reported_as_not_a_file:
  "FilesConfig_init demo_env (Some ''sub'') (Some ''b.txt,'') None
     = Inr \<lparr> path = Some ''sub'', files = Some [''b.txt'', []], out_folder = Some ''sub'' \<rparr>
   \<and> verify demo_env
         \<lparr> path = Some ''sub'', files = Some [''b.txt'', []], out_folder = Some ''sub'' \<rparr>
       = Inr (['' is not a file''],
              \<lparr> path = Some ''sub'', files = Some [''b.txt'', []],
                out_folder = Some ''sub'' \<rparr>)"
  by code_simp

text \<open>
  Claim C10, amended. A raw file list with a leading comma, a trailing comma or two
  adjacent commas is split into entries that include the empty string, and validation of
  the request returns a non-empty error list and leaves the request as it was. The error
  for the empty entry is \<^verbatim>\<open>" does not exist"\<close> when no directory was given,
  \<^verbatim>\<open>" does not exist on path D"\<close> when the directory \<open>D\<close> joined with the empty entry does
  not exist, and \<^verbatim>\<open>" is not a file"\<close> when it exists. The operating system is one where the
  empty path does not exist and a path that ends with a separator is no regular file. (The
  request is not built at all in one case only: \<^verbatim>\<open>abspath\<close> raised for the directory.)
\<close>

theorem empty_segment_fails_validation:
  assumes seg: "raw = CHR '','' # t \<or> raw = h @ '','' \<or> raw = h @ '',,'' @ t"
      and ex: "\<not> os_path_exists env []"
      and isf: "\<forall>q. endswith_sep q \<longrightarrow> \<not> os_path_isfile env q"
  shows "verify_file env p [] =
           (case p of
              None \<Rightarrow> ['' does not exist'']
            | Some d \<Rightarrow>
                if d = [] then ['' does not exist'']
                else if \<not> os_path_exists env (os_path_join d [])
                  then ['' does not exist on path '' @ d]
                else ['' is not a file''])
       \<and> verify_file env p [] \<noteq> []
       \<and> (case FilesConfig_init env p (Some raw) out of
             Inl e \<Rightarrow>
               \<not> truthy out \<and> (\<exists>d. p = Some d \<and> d \<noteq> [] \<and> os_path_abspath env d = Inl e)
           | Inr c \<Rightarrow>
               (\<exists>fs. files c = Some fs \<and> [] \<in> set fs)
               \<and> (\<exists>errs. verify env c = Inr (errs, c)
                     \<and> set (verify_file env p []) \<subseteq> set errs))"
proof -
  from seg have ne: "raw \<noteq> []" by auto
  have mem: "[] \<in> set (split_sep CHR '','' raw)"
    using empty_segment_split [of raw "CHR '',''" t h] seg by simp
  have vf: "verify_file env p [] =
           (case p of
              None \<Rightarrow> ['' does not exist'']
            | Some d \<Rightarrow>
                if d = [] then ['' does not exist'']
                else if \<not> os_path_exists env (os_path_join d [])
                  then ['' does not exist on path '' @ d]
                else ['' is not a file''])"
    using verify_file_empty [of env p] ex isf by blast
  have vne: "verify_file env p [] \<noteq> []"
    unfolding vf by (simp split: option.splits)
  have third: "(case FilesConfig_init env p (Some raw) out of
             Inl e \<Rightarrow>
               \<not> truthy out \<and> (\<exists>d. p = Some d \<and> d \<noteq> [] \<and> os_path_abspath env d = Inl e)
           | Inr c \<Rightarrow>
               (\<exists>fs. files c = Some fs \<and> [] \<in> set fs)
               \<and> (\<exists>errs. verify env c = Inr (errs, c)
                     \<and> set (verify_file env p []) \<subseteq> set errs))"
  proof (cases "FilesConfig_init env p (Some raw) out")
    case (Inl e)
    with FilesConfig_init_cases [where env = env and p = p and fs = "Some raw" and out = out] show ?thesis by simp
  next
    case (Inr c)
    with FilesConfig_init_cases [where env = env and p = p and fs = "Some raw" and out = out] ne
    have pa: "path c = p" and fl: "files c = Some (split_sep CHR '','' raw)" by simp_all
    have sub: "set (verify_file env p []) \<subseteq> set (verify_errors env c)"
    proof
      fix e assume e: "e \<in> set (verify_file env p [])"
      then have "e \<noteq> []" unfolding vf by (auto split: option.splits if_splits)
      with e show "e \<in> set (verify_errors env c)"
        using verify_errors_contains [OF fl mem, of e env] pa by simp
    qed
    from vne sub have nonempty: "verify_errors env c \<noteq> []"
      by (cases "verify_file env p []") auto
    have v: "verify env c = Inr (verify_errors env c, c)"
      using nonempty by (simp add: verify_def Let_def)
    from fl mem sub v Inr show ?thesis by simp
  qed
  show ?thesis by (rule conjI [OF vf conjI [OF vne third]])
qed

theorem empty_segment_fails_validation_witness:
  "''b.txt,'' = ''b.txt'' @ '',''
   \<and> \<not> os_path_exists demo_env []
   \<and> \<not> os_path_isfile demo_env ''sub/''
   \<and> FilesConfig_init demo_env (Some ''sub'') (Some ''b.txt,'') None
       = Inr \<lparr> path = Some ''sub'', files = Some [''b.txt'', []], out_folder = Some ''sub'' \<rparr>
   \<and> verify_file demo_env (Some ''sub'') [] = ['' is not a file'']
   \<and> (\<exists>errs. verify demo_env
                 \<lparr> path = Some ''sub'', files = Some [''b.txt'', []],
                   out_folder = Some ''sub'' \<rparr>
               = Inr (errs, \<lparr> path = Some ''sub'', files = Some [''b.txt'', []],
                             out_folder = Some ''sub'' \<rparr>)
             \<and> '' is not a file'' \<in> set errs)"
proof -
  let ?c = "\<lparr> path = Some ''sub'', files = Some [''b.txt'', []], out_folder = Some ''sub'' \<rparr>"
  have h1: "''b.txt,'' = CHR '','' # [] \<or> ''b.txt,'' = ''b.txt'' @ '',''
            \<or> ''b.txt,'' = ''b.txt'' @ '',,'' @ []"
    by simp
  have h2: "\<not> os_path_exists demo_env []" by code_simp
  have h3: "\<forall>q. endswith_sep q \<longrightarrow> \<not> os_path_isfile demo_env q"
    by (simp add: demo_env_def posix_env_def posix_isfile_def)
  have h4: "os_path_exists demo_env (os_path_join ''sub'' [])" by code_simp
  have h6: "FilesConfig_init demo_env (Some ''sub'') (Some ''b.txt,'') None = Inr ?c"
    by code_simp
  note r = empty_segment_fails_validation [OF h1 h2 h3, of "Some ''sub''" None]
  have vf: "verify_file demo_env (Some ''sub'') [] = ['' is not a file'']"
    using conjunct1 [OF r] h4 by (simp del: verify_file.simps)
  have "\<exists>errs. verify demo_env ?c = Inr (errs, ?c)
          \<and> set (verify_file demo_env (Some ''sub'') []) \<subseteq> set errs"
    using conjunct2 [OF conjunct2 [OF r]] unfolding h6 by simp
  then have mem: "\<exists>errs. verify demo_env ?c = Inr (errs, ?c) \<and> '' is not a file'' \<in> set errs"
    unfolding vf by simp
  have e: "''b.txt,'' = ''b.txt'' @ '',''" by simp
  have h5: "\<not> os_path_isfile demo_env ''sub/''"
    using h3 by (simp add: endswith_sep_def sep_def)
  show ?thesis
    by (rule conjI [OF e conjI [OF h2 conjI [OF h5 conjI [OF h6 conjI [OF vf mem]]]]])
qed

section \<open>Properties of configuration loading\<close>

lemma subscript2_Inr:
  "subscript2 conf ns k = Inr v \<longleftrightarrow>
     (\<exists>m sm. conf = YMap m \<and> map_of m ns = Some (YMap sm) \<and> map_of sm k = Some v)"
  by (auto simp: subscript2_def subscript_def split: yaml.splits option.splits sum.splits)

lemma SharepointConfig_init_Inr:
  "SharepointConfig_init cf sub = Inr r \<longleftrightarrow>
     (\<exists>conf. cf = Document conf
        \<and> subscript2 conf ''sp'' ''tenant'' = Inr (tenant r)
        \<and> subscript2 conf ''sp'' ''client'' = Inr (client r)
        \<and> subscript2 conf ''sp'' ''site'' = Inr (site r)
        \<and> subscript2 conf ''sp'' ''secret'' = Inr (secret r)
        \<and> subsite r = sub)"
  by (cases r)
     (auto simp: SharepointConfig_init_def load_config_def split: config_file.splits sum.splits)

lemma RuntimeConfig_init_Inr:
  "RuntimeConfig_init d cf = Inr rt \<longleftrightarrow>
     (\<exists>conf. cf = Document conf
        \<and> subscript2 conf ''runtime'' ''chunk_size'' = Inr (chunk_size rt)
        \<and> debug rt = d)"
  by (cases rt)
     (auto simp: RuntimeConfig_init_def load_config_def split: config_file.splits sum.splits)

text \<open>
  Claim C5, as stated, fails: a document that keeps the credentials under the key
  \<^verbatim>\<open>sharepoint\<close> is rejected with \<^verbatim>\<open>KeyError: 'sp'\<close>.
\<close>

theorem sharepoint_namespace_is_not_read:
  "SharepointConfig_init spec_document None = Inl (KeyError ''sp'')"
  by code_simp

text \<open>
  Claim C5, amended. Loading succeeds exactly when \<^verbatim>\<open>config.yaml\<close> holds a dictionary
  whose key \<^verbatim>\<open>sp\<close> holds a dictionary with the keys \<^verbatim>\<open>tenant\<close>, \<^verbatim>\<open>client\<close>, \<^verbatim>\<open>site\<close> and
  \<^verbatim>\<open>secret\<close> (for the credentials), and whose key \<^verbatim>\<open>runtime\<close> holds a dictionary with the
  key \<^verbatim>\<open>chunk_size\<close> (for the runtime settings); the fields are the values found there. In
  every other case, a missing file and a missing key among them, loading raises: no field
  has a default.
\<close>

theorem config_loading_reads_sp_and_runtime:
  "(SharepointConfig_init cf sub = Inr r \<longleftrightarrow>
     (\<exists>m sp. cf = Document (YMap m) \<and> map_of m ''sp'' = Some (YMap sp)
        \<and> map_of sp ''tenant'' = Some (tenant r)
        \<and> map_of sp ''client'' = Some (client r)
        \<and> map_of sp ''site'' = Some (site r)
        \<and> map_of sp ''secret'' = Some (secret r)
        \<and> subsite r = sub))
   \<and> (RuntimeConfig_init d cf = Inr rt \<longleftrightarrow>
     (\<exists>m ru. cf = Document (YMap m) \<and> map_of m ''runtime'' = Some (YMap ru)
        \<and> map_of ru ''chunk_size'' = Some (chunk_size rt)
        \<and> debug rt = d))
   \<and> SharepointConfig_init Missing sub = Inl (FileNotFoundError ''config.yaml'')
   \<and> RuntimeConfig_init d Missing = Inl (FileNotFoundError ''config.yaml'')"
proof -
  have a: "SharepointConfig_init Missing sub = Inl (FileNotFoundError ''config.yaml'')"
    by (simp add: SharepointConfig_init_def load_config_def)
  have b: "RuntimeConfig_init d Missing = Inl (FileNotFoundError ''config.yaml'')"
    by (simp add: RuntimeConfig_init_def load_config_def)
  have c: "SharepointConfig_init cf sub = Inr r \<longleftrightarrow>
     (\<exists>m sp. cf = Document (YMap m) \<and> map_of m ''sp'' = Some (YMap sp)
        \<and> map_of sp ''tenant'' = Some (tenant r)
        \<and> map_of sp ''client'' = Some (client r)
        \<and> map_of sp ''site'' = Some (site r)
        \<and> map_of sp ''secret'' = Some (secret r)
        \<and> subsite r = sub)"
    unfolding SharepointConfig_init_Inr subscript2_Inr by auto
  have e: "RuntimeConfig_init d cf = Inr rt \<longleftrightarrow>
     (\<exists>m ru. cf = Document (YMap m) \<and> map_of m ''runtime'' = Some (YMap ru)
        \<and> map_of ru ''chunk_size'' = Some (chunk_size rt)
        \<and> debug rt = d)"
    unfolding RuntimeConfig_init_Inr subscript2_Inr by auto
  from a b c e show ?thesis by blast
qed

theorem config_loading_reads_sp_and_runtime_witness:
  "SharepointConfig_init demo_document (Some ''x'')
     = Inr \<lparr> tenant = YStr ''t'', client = YStr ''c'', site = YStr ''https://h/sites/s'',
             secret = YStr ''x'', subsite = Some ''x'' \<rparr>
   \<and> RuntimeConfig_init False demo_document = Inr demo_runtime"
  using config_loading_reads_sp_and_runtime [of demo_document "Some ''x''"
              "\<lparr> tenant = YStr ''t'', client = YStr ''c'', site = YStr ''https://h/sites/s'',
                 secret = YStr ''x'', subsite = Some ''x'' \<rparr>" False demo_runtime]
  by (simp add: demo_document_def credentials_def demo_runtime_def)

section \<open>Properties of the upload\<close>

lemma run_callbacks_int:
  "chunk_size rt = YInt k \<Longrightarrow>
   run_callbacks rt b offsets = Inr (b\<lparr>pbar_n := pbar_n b + k * int (length offsets)\<rparr>)"
proof (induction offsets arbitrary: b)
  case Nil
  show ?case by simp
next
  case (Cons offset offsets)
  then show ?case
    by (simp add: display_upload_progress_def pbar_update_def algebra_simps)
qed

text \<open>
  Claim C9. With an integer chunk size \<open>k\<close> configured, every call of the progress callback
  adds exactly \<open>k\<close> to the counter of the progress bar, whatever offset the remote client
  passes; after the callbacks of one file the counter stands at \<open>k\<close> times their number.
  No call is treated apart, so the counter can pass the size of the file.
\<close>

theorem progress_advances_by_chunk_size:
  assumes "chunk_size rt = YInt k"
  shows "display_upload_progress rt b offset = Inr (b\<lparr>pbar_n := pbar_n b + k\<rparr>)
       \<and> run_callbacks rt b offsets
           = Inr (b\<lparr>pbar_n := pbar_n b + k * int (length offsets)\<rparr>)"
  using assms run_callbacks_int [OF assms]
  by (simp add: display_upload_progress_def pbar_update_def)

theorem progress_advances_by_chunk_size_witness:
  "chunk_size demo_runtime = YInt 4
   \<and> display_upload_progress demo_runtime \<lparr>pbar_total = 10, pbar_n = 8\<rparr> 10
       = Inr \<lparr>pbar_total = 10, pbar_n = 12\<rparr>
   \<and> run_callbacks demo_runtime \<lparr>pbar_total = 10, pbar_n = 0\<rparr> [4, 8, 10]
       = Inr \<lparr>pbar_total = 10, pbar_n = 12\<rparr>"
proof -
  have h: "chunk_size demo_runtime = YInt 4" by (simp add: demo_runtime_def)
  show ?thesis
    using h progress_advances_by_chunk_size [OF h, of "\<lparr>pbar_total = 10, pbar_n = 8\<rparr>" 10]
      progress_advances_by_chunk_size [OF h, of "\<lparr>pbar_total = 10, pbar_n = 0\<rparr>" 0 "[4, 8, 10]"]
    by simp
qed

lemma upload_loop_ok_prefix:
  assumes "\<forall>g \<in> set pre. upload_succeeds env rm rt url out g"
  shows "upload_loop env rm rt url out (pre @ rest)
         = (fst (upload_loop env rm rt url out pre) @ fst (upload_loop env rm rt url out rest),
            snd (upload_loop env rm rt url out rest))
       \<and> attempted (fst (upload_loop env rm rt url out pre)) = pre
       \<and> snd (upload_loop env rm rt url out pre) = Inr True"
  using assms
proof (induction pre)
  case Nil
  show ?case by simp
next
  case (Cons g pre)
  then show ?case
    by (auto simp: upload_succeeds_def split: sum.splits prod.splits exn.splits)
qed

lemma attempted_append: "attempted (xs @ ys) = attempted xs @ attempted ys"
  by (induction xs rule: attempted.induct) auto

lemma upload_loop_refused:
  assumes "upload_refused env rm rt url out f msg"
  shows "upload_loop env rm rt url out (f # post)
         = ([LogInfo (''File upload: '' @ os_path_basename f), UploadSession url f,
             LogError msg], Inr False)"
  using assms
  by (auto simp: upload_refused_def split: sum.splits prod.splits exn.splits)

text \<open>
  Claim C7. The files are uploaded one after the other in the order of the list. When the
  files \<open>pre\<close> go up and the request for the next file \<open>f\<close> is refused, the loop logs the
  server's message and returns \<^verbatim>\<open>False\<close> at once: upload sessions were opened for \<open>pre\<close>
  and \<open>f\<close>, in this order, and for none of the files \<open>post\<close> after \<open>f\<close>; the events do not
  depend on \<open>post\<close> at all.
\<close>

theorem upload_stops_at_first_refusal:
  assumes "\<forall>g \<in> set pre. upload_succeeds env rm rt url out g"
      and "upload_refused env rm rt url out f msg"
  shows "upload_loop env rm rt url out (pre @ f # post)
           = (fst (upload_loop env rm rt url out pre)
                @ [LogInfo (''File upload: '' @ os_path_basename f), UploadSession url f,
                   LogError msg],
              Inr False)
       \<and> attempted (fst (upload_loop env rm rt url out (pre @ f # post))) = pre @ [f]"
  using upload_loop_ok_prefix [OF assms(1), of "f # post"]
        upload_loop_refused [OF assms(2), of post]
  by (simp add: attempted_append)

theorem upload_stops_at_first_refusal_witness:
  "upload_succeeds demo_env refusing_remote demo_runtime (YStr ''u'') None ''/w/a.txt''
   \<and> upload_refused demo_env refusing_remote demo_runtime (YStr ''u'') None
       ''/w/sub/b.txt'' ''denied''
   \<and> attempted (fst (upload_loop demo_env refusing_remote demo_runtime (YStr ''u'') None
                  [''/w/a.txt'', ''/w/sub/b.txt'', ''/w/sub/c.txt'']))
       = [''/w/a.txt'', ''/w/sub/b.txt'']
   \<and> snd (upload_loop demo_env refusing_remote demo_runtime (YStr ''u'') None
            [''/w/a.txt'', ''/w/sub/b.txt'', ''/w/sub/c.txt'']) = Inr False"
proof -
  have h0: "upload_succeeds demo_env refusing_remote demo_runtime (YStr ''u'') None
              ''/w/a.txt''"
    by code_simp
  have h1: "\<forall>g \<in> set [''/w/a.txt''].
              upload_succeeds demo_env refusing_remote demo_runtime (YStr ''u'') None g"
    using h0 by simp
  have h2: "upload_refused demo_env refusing_remote demo_runtime (YStr ''u'') None
              ''/w/sub/b.txt'' ''denied''"
    by code_simp
  note r = upload_stops_at_first_refusal [OF h1 h2, of "[''/w/sub/c.txt'']"]
  have r1: "attempted (fst (upload_loop demo_env refusing_remote demo_runtime (YStr ''u'') None
                  [''/w/a.txt'', ''/w/sub/b.txt'', ''/w/sub/c.txt'']))
              = [''/w/a.txt'', ''/w/sub/b.txt'']"
    using conjunct2 [OF r] by (simp only: append_Cons append_Nil)
  have r2: "snd (upload_loop demo_env refusing_remote demo_runtime (YStr ''u'') None
                  [''/w/a.txt'', ''/w/sub/b.txt'', ''/w/sub/c.txt'']) = Inr False"
    using conjunct1 [OF r] by (simp only: append_Cons append_Nil snd_conv)
  show ?thesis by (rule conjI [OF h0 conjI [OF h2 conjI [OF r1 r2]]])
qed

section \<open>Properties of the orchestration\<close>

text \<open>
  Claim C3. \<^verbatim>\<open>verify()\<close> is called once the configuration has loaded and the request is
  built. When it returns a non-empty list, \<^verbatim>\<open>main\<close> logs every error of the list, in order,
  as an error line, logs no other failure, makes no call to the remote site, and returns.
\<close>

theorem main_validation_errors_no_network:
  assumes "SharepointConfig_init cf (p_subsite ps) = Inr spconf"
      and "RuntimeConfig_init (p_debug ps) cf = Inr runtime"
      and "FilesConfig_init env (p_directory ps) (p_files ps) (p_out ps) = Inr fconf0"
      and "verify env fconf0 = Inr (vs, fconf)"
      and "vs \<noteq> []"
  shows "filter is_failure_log (fst (main env cf rm ps)) = map LogError vs
       \<and> filter is_network (fst (main env cf rm ps)) = []
       \<and> snd (main env cf rm ps) = None"
proof -
  have f1: "filter is_failure_log (map LogError vs) = map LogError vs"
    by (induction vs) (simp_all add: is_failure_log_def)
  have f2: "filter is_network (map LogError vs) = []"
    by (induction vs) (simp_all add: is_network_def)
  from assms f1 f2 show ?thesis
    by (simp add: main_def Let_def is_failure_log_def is_network_def)
qed

theorem main_validation_errors_no_network_witness:
  "FilesConfig_init demo_env (p_directory bad_params) (p_files bad_params) (p_out bad_params)
     = Inr \<lparr> path = Some ''nope'', files = Some [''zz''], out_folder = Some ''a b'' \<rparr>
   \<and> verify demo_env \<lparr> path = Some ''nope'', files = Some [''zz''], out_folder = Some ''a b'' \<rparr>
       = Inr ([''nope does not exist'', ''zz does not exist on path nope'',
               ''a b contains illegal characters: only a-zA-Z0-9._- are allowed''],
              \<lparr> path = Some ''nope'', files = Some [''zz''], out_folder = Some ''a b'' \<rparr>)
   \<and> filter is_failure_log (fst (main demo_env demo_document demo_remote bad_params)) =
      [LogError ''nope does not exist'', LogError ''zz does not exist on path nope'',
       LogError ''a b contains illegal characters: only a-zA-Z0-9._- are allowed'']
   \<and> filter is_network (fst (main demo_env demo_document demo_remote bad_params)) = []
   \<and> snd (main demo_env demo_document demo_remote bad_params) = None"
proof -
  let ?c = "\<lparr> path = Some ''nope'', files = Some [''zz''], out_folder = Some ''a b'' \<rparr>"
  let ?vs = "[''nope does not exist'', ''zz does not exist on path nope'',
               ''a b contains illegal characters: only a-zA-Z0-9._- are allowed'']"
  have h1: "SharepointConfig_init demo_document (p_subsite bad_params) = Inr demo_spconf"
    by code_simp
  have h2: "RuntimeConfig_init (p_debug bad_params) demo_document = Inr demo_runtime"
    by code_simp
  have h3: "FilesConfig_init demo_env (p_directory bad_params) (p_files bad_params)
              (p_out bad_params) = Inr ?c"
    by code_simp
  have h4: "verify demo_env ?c = Inr (?vs, ?c)" by code_simp
  have h5: "?vs \<noteq> []" by simp
  note r = main_validation_errors_no_network [OF h1 h2 h3 h4 h5, of demo_remote]
  have r': "filter is_failure_log (fst (main demo_env demo_document demo_remote bad_params)) =
      [LogError ''nope does not exist'', LogError ''zz does not exist on path nope'',
       LogError ''a b contains illegal characters: only a-zA-Z0-9._- are allowed'']
   \<and> filter is_network (fst (main demo_env demo_document demo_remote bad_params)) = []
   \<and> snd (main demo_env demo_document demo_remote bad_params) = None"
    using r by (simp only: list.map)
  show ?thesis by (rule conjI [OF h3 conjI [OF h4 r']])
qed










end
